theory Spec2Isabelle
  imports Complex_Main
begin

section \<open>Python values, exceptions and built-ins\<close>

text \<open>
  The client module \<^verbatim>\<open>get_worker_client.py\<close> is modelled. Exceptions are values:
  a function that can raise returns \<open>py_exn + 'a\<close>, with \<open>Inl\<close> the raised exception.
  \<open>py_exn\<close> stands for the instances of Python's \<^verbatim>\<open>Exception\<close>, which is what the
  \<^verbatim>\<open>except Exception\<close> clauses of the module catch; \<open>exn_str e\<close> is \<^verbatim>\<open>str(e)\<close>.
\<close>

datatype exn_kind =
  ProcessLookupError | ValueError | AttributeError | TypeError | IndexError
  | UnboundLocalError | OtherException string

datatype py_exn = PyExn (exn_kind: exn_kind) (exn_str: string)

text \<open>
  Dynamically typed values: the JSON values \<^verbatim>\<open>json.loads\<close> yields (floats apart), and
  objects with a class name and named attributes (the results of the MCP session).
  A dict is an association list in insertion order, its keys distinct.
\<close>

datatype pyval =
  PNone | PBool bool | PInt int | PStr string
  | PList "pyval list"
  | PDict "(string \<times> pyval) list"
  | PObj string "(string \<times> pyval) list"

text \<open>
  \<^verbatim>\<open>obj.name\<close>: only objects carry the attributes the module reads (\<^verbatim>\<open>content\<close>,
  \<^verbatim>\<open>text\<close>, \<^verbatim>\<open>messages\<close>, \<^verbatim>\<open>message\<close>, \<^verbatim>\<open>role\<close>); on a list, a string, a dict, a
  number or None the access raises AttributeError. The texts of the exceptions the
  interpreter raises are written without their quote marks, except where the text
  reaches the string \<^verbatim>\<open>process_query\<close> returns.
\<close>

fun getattr :: "pyval \<Rightarrow> string \<Rightarrow> py_exn + pyval" where
  "getattr (PObj cls attrs) n =
     (case map_of attrs n of
        Some v \<Rightarrow> Inr v
      | None \<Rightarrow> Inl (PyExn AttributeError (cls @ '' object has no attribute '' @ n)))"
| "getattr v n = Inl (PyExn AttributeError (''object has no attribute '' @ n))"

definition hasattr :: "pyval \<Rightarrow> string \<Rightarrow> bool" where
  "hasattr v n = (case getattr v n of Inr _ \<Rightarrow> True | Inl _ \<Rightarrow> False)"

fun is_list :: "pyval \<Rightarrow> bool" where
  "is_list (PList xs) = True"
| "is_list v = False"

fun is_str :: "pyval \<Rightarrow> bool" where
  "is_str (PStr s) = True"
| "is_str v = False"

text \<open>\<^verbatim>\<open>for item in v\<close>: a list yields its items, a string its characters, a dict its keys.\<close>

fun iterate :: "pyval \<Rightarrow> py_exn + pyval list" where
  "iterate (PList xs) = Inr xs"
| "iterate (PStr s) = Inr (map (\<lambda>c. PStr [c]) s)"
| "iterate (PDict d) = Inr (map (\<lambda>kv. PStr (fst kv)) d)"
| "iterate v = Inl (PyExn TypeError ''object is not iterable'')"

text \<open>\<^verbatim>\<open>v.items()\<close>, which only a dict has.\<close>

fun dict_items :: "pyval \<Rightarrow> py_exn + (string \<times> pyval) list" where
  "dict_items (PDict d) = Inr d"
| "dict_items v = Inl (PyExn AttributeError ''object has no attribute items'')"

text \<open>
  The built-ins the module calls and this development does not define: \<^verbatim>\<open>str\<close> on a
  value (also what an f-string applies) and \<^verbatim>\<open>json.loads\<close>.
\<close>

record builtins =
  py_str :: "pyval \<Rightarrow> string"
  json_loads :: "string \<Rightarrow> py_exn + pyval"

fun join :: "string \<Rightarrow> string list \<Rightarrow> string" where
  "join sep [] = []"
| "join sep [x] = x"
| "join sep (x # y # ys) = x @ sep @ join sep (y # ys)"

fun str_items :: "pyval list \<Rightarrow> string list option" where
  "str_items [] = Some []"
| "str_items (PStr s # xs) = (case str_items xs of None \<Rightarrow> None | Some ss \<Rightarrow> Some (s # ss))"
| "str_items (v # xs) = None"

text \<open>\<^verbatim>\<open>"\n".join(final_text)\<close>: TypeError when an item is not a string.\<close>

definition join_newline :: "pyval list \<Rightarrow> py_exn + string" where
  "join_newline xs =
     (case str_items xs of
        None \<Rightarrow> Inl (PyExn TypeError ''sequence item: expected str instance'')
      | Some ss \<Rightarrow> Inr (join [CHR 0x0A] ss))"

text \<open>\<^verbatim>\<open>s.endswith(suf)\<close>\<close>

definition endswith :: "string \<Rightarrow> string \<Rightarrow> bool" where
  "endswith s suf = (length suf \<le> length s \<and> drop (length s - length suf) s = suf)"

section \<open>The collaborators: language model and MCP session\<close>

record tool_call =
  tc_id :: string
  tc_name :: string
  tc_arguments :: string

text \<open>
  The assistant message of a completion. \<open>cm_tool_calls = None\<close> stands for a message
  without the attribute \<^verbatim>\<open>tool_calls\<close> or with the value None: both take the
  \<^verbatim>\<open>else\<close> branch of \<^verbatim>\<open>process_query\<close>.
\<close>

record chat_message =
  cm_content :: "string option"
  cm_tool_calls :: "tool_call list option"

text \<open>\<open>choices r\<close> lists \<^verbatim>\<open>choice.message\<close> for each choice of the response.\<close>

record completion =
  choices :: "chat_message list"

datatype message =
  RoleContent string string
  | AssistantMessage chat_message
  | ToolMessage string pyval

record tool =
  tool_name :: string
  tool_description :: pyval
  tool_inputSchema :: pyval

record function_tool =
  fn_name :: string
  fn_description :: pyval
  fn_parameters :: pyval

record llm_request =
  req_model :: string
  req_max_tokens :: nat
  req_temperature :: "rat option"
  req_messages :: "message list"
  req_tools :: "function_tool list option"

text \<open>
  Every call that leaves the client is an event, recorded with its outcome. A
  collaborator answers as a function of the events so far and of its arguments, so it
  may answer the same request differently at different times.
\<close>

datatype event =
  OpenTransport string "string list" "py_exn + nat"
  | OpenSession nat "py_exn + unit"
  | Initialize "py_exn + unit"
  | ListTools "py_exn + tool list"
  | Completion llm_request "py_exn + completion"
  | CallTool string pyval "py_exn + pyval"
  | GetPrompt pyval "(string \<times> string) list" "py_exn + pyval"

record session =
  initialize :: "event list \<Rightarrow> py_exn + unit"
  list_tools :: "event list \<Rightarrow> py_exn + tool list"
  call_tool :: "event list \<Rightarrow> string \<Rightarrow> pyval \<Rightarrow> py_exn + pyval"
  get_prompt :: "event list \<Rightarrow> pyval \<Rightarrow> (string \<times> string) list \<Rightarrow> py_exn + pyval"

text \<open>
  The fields of \<^verbatim>\<open>MCPClient\<close>: \<open>llm_create\<close> is \<^verbatim>\<open>self.llm.chat.completions.create\<close>,
  \<open>aclose\<close> is \<^verbatim>\<open>self.exit_stack.aclose\<close>.
\<close>

record client =
  session :: "session option"
  transport :: "nat option"
  llm_create :: "event list \<Rightarrow> llm_request \<Rightarrow> py_exn + completion"
  model :: string
  aclose :: "event list \<Rightarrow> py_exn + unit"

text \<open>What \<^verbatim>\<open>stdio_client(...)\<close> and \<^verbatim>\<open>ClientSession(...)\<close> do when entered.\<close>

record mcp_library =
  stdio_client :: "event list \<Rightarrow> string \<Rightarrow> string list \<Rightarrow> py_exn + nat"
  ClientSession :: "event list \<Rightarrow> nat \<Rightarrow> py_exn + session"

section \<open>connect\_to\_server and cleanup\<close>

definition connect_to_server ::
  "mcp_library \<Rightarrow> client \<Rightarrow> string \<Rightarrow> (py_exn + unit) \<times> client \<times> event list" where
  "connect_to_server lib c server_script_path =
     (let is_python = endswith server_script_path ''.py'';
          is_js = endswith server_script_path ''.js''
      in if \<not> (is_python \<or> is_js)
         then (Inl (PyExn ValueError ''Server script must be a .py or .js file''), c, [])
         else
           (let command = (if is_python then ''python'' else ''node'');
                args = [server_script_path]
            in (case stdio_client lib [] command args of
                  Inl e \<Rightarrow> (Inl e, c, [OpenTransport command args (Inl e)])
                | Inr tr \<Rightarrow>
                    (let t1 = [OpenTransport command args (Inr tr)];
                         c1 = c\<lparr>transport := Some tr\<rparr>
                     in (case ClientSession lib t1 tr of
                           Inl e \<Rightarrow> (Inl e, c1, t1 @ [OpenSession tr (Inl e)])
                         | Inr s \<Rightarrow>
                             (let t2 = t1 @ [OpenSession tr (Inr ())];
                                  c2 = c1\<lparr>session := Some s\<rparr>;
                                  r3 = initialize s t2;
                                  t3 = t2 @ [Initialize r3]
                              in (case r3 of
                                    Inl e \<Rightarrow> (Inl e, c2, t3)
                                  | Inr u \<Rightarrow>
                                      (let r4 = list_tools s t3;
                                           t4 = t3 @ [ListTools r4]
                                       in (case r4 of
                                             Inl e \<Rightarrow> (Inl e, c2, t4)
                                           | Inr tools \<Rightarrow> (Inr (), c2, t4))))))))))"

text \<open>
  \<^verbatim>\<open>cleanup\<close>: the outcome and the lines printed. Both \<^verbatim>\<open>except\<close> clauses end
  normally; only the second prints.
\<close>

definition cleanup :: "client \<Rightarrow> event list \<Rightarrow> (py_exn + unit) \<times> string list" where
  "cleanup c t =
     (case aclose c t of
        Inr u \<Rightarrow> (Inr (), [])
      | Inl e \<Rightarrow>
          if exn_kind e = ProcessLookupError then (Inr (), [])
          else (Inr (), [''Error during cleanup: '' @ exn_str e]))"

text \<open>\<^verbatim>\<open>MCPClient.__init__\<close>, given the model client, the model name and the exit stack.\<close>

definition init_client ::
  "(event list \<Rightarrow> llm_request \<Rightarrow> py_exn + completion) \<Rightarrow> string \<Rightarrow>
   (event list \<Rightarrow> py_exn + unit) \<Rightarrow> client" where
  "init_client create name close =
     \<lparr>session = None, transport = None, llm_create = create, model = name, aclose = close\<rparr>"

section \<open>process\_query\<close>

text \<open>
  The locals of \<^verbatim>\<open>process_query\<close> that change, and the events so far.
  \<open>tool_args = None\<close> is the local \<^verbatim>\<open>tool_args\<close> before its first assignment.
  \<^verbatim>\<open>print\<close> output is not modelled; evaluating the argument of a \<^verbatim>\<open>print\<close> is.
\<close>

record pq_state =
  messages :: "message list"
  final_text :: "pyval list"
  tool_args :: "pyval option"
  trace :: "event list"

text \<open>How a block of statements ends: it falls through, returns a value, or raises.\<close>

datatype flow = Next | Return string | Raise py_exn

definition system_prompt :: string where
  "system_prompt = ''You are a professional AI Assistant. You can use the tools in the MCP Server to complete Workday HCM related tasks requested by the user.''"

definition available_tool :: "tool \<Rightarrow> function_tool" where
  "available_tool t =
     \<lparr>fn_name = tool_name t, fn_description = tool_description t,
      fn_parameters = tool_inputSchema t\<rparr>"

text \<open>Lines 102 to 106: the \<^verbatim>\<open>except\<close> clause only prints, and \<^verbatim>\<open>tool_args\<close> keeps its
  former value (or stays unbound).\<close>

definition parse_arguments :: "builtins \<Rightarrow> tool_call \<Rightarrow> pq_state \<Rightarrow> pq_state" where
  "parse_arguments py tc st =
     (case json_loads py (tc_arguments tc) of
        Inr v \<Rightarrow> st\<lparr>tool_args := Some v\<rparr>
      | Inl e \<Rightarrow> st)"

definition announcement :: "builtins \<Rightarrow> string \<Rightarrow> pyval \<Rightarrow> string" where
  "announcement py name args = ''Calling tool '' @ name @ '' with args '' @ py_str py args"

text \<open>\<^verbatim>\<open>text_content += item.text\<close> for the items that have \<^verbatim>\<open>text\<close>.\<close>

fun concat_text :: "pyval list \<Rightarrow> string \<Rightarrow> py_exn + string" where
  "concat_text [] text_content = Inr text_content"
| "concat_text (item # items) text_content =
     (case getattr item ''text'' of
        Inl e \<Rightarrow> concat_text items text_content
      | Inr (PStr t) \<Rightarrow> concat_text items (text_content @ t)
      | Inr v \<Rightarrow> Inl (PyExn TypeError ''can only concatenate str to str''))"

text \<open>Lines 112 to 120. The tests are on \<^verbatim>\<open>tool_response\<close>, the value \<^verbatim>\<open>call_tool\<close>
  returned, after its attribute \<^verbatim>\<open>content\<close> has been read.\<close>

definition normalize_result :: "builtins \<Rightarrow> pyval \<Rightarrow> py_exn + pyval" where
  "normalize_result py tool_response =
     (case getattr tool_response ''content'' of
        Inl e \<Rightarrow> Inl e
      | Inr tool_result_content \<Rightarrow>
          if is_list tool_response then
            (case iterate tool_response of
               Inl e \<Rightarrow> Inl e
             | Inr items \<Rightarrow>
                 (case concat_text items [] of
                    Inl e \<Rightarrow> Inl e
                  | Inr text_content \<Rightarrow> Inr (PStr text_content)))
          else if \<not> is_str tool_response then Inr (PStr (py_str py tool_response))
          else Inr tool_result_content)"

text \<open>Lines 108 to 129: announce, call the tool, normalise, append the tool message.\<close>

definition execute_tool ::
  "builtins \<Rightarrow> session \<Rightarrow> tool_call \<Rightarrow> pq_state \<Rightarrow> (py_exn + unit) \<times> pq_state" where
  "execute_tool py sess tc st =
     (case tool_args st of
        None \<Rightarrow>
          (Inl (PyExn UnboundLocalError
             ''cannot access local variable tool_args where it is not associated with a value''), st)
      | Some args \<Rightarrow>
          (let st1 = st\<lparr>final_text := final_text st @ [PStr (announcement py (tc_name tc) args)]\<rparr>;
               out = call_tool sess (trace st1) (tc_name tc) args;
               st2 = st1\<lparr>trace := trace st1 @ [CallTool (tc_name tc) args out]\<rparr>
           in (case out of
                 Inl e \<Rightarrow> (Inl e, st2)
               | Inr tool_response \<Rightarrow>
                   (case normalize_result py tool_response of
                      Inl e \<Rightarrow> (Inl e, st2)
                    | Inr tool_result_content \<Rightarrow>
                        (Inr (),
                         st2\<lparr>final_text := final_text st2 @ [tool_result_content],
                             messages := messages st2 @
                               [ToolMessage (tc_id tc) tool_result_content]\<rparr>)))))"

text \<open>Lines 142 to 149: the loop over the messages of a rendered template.\<close>

fun surface_assistant ::
  "builtins \<Rightarrow> pyval list \<Rightarrow> pq_state \<Rightarrow> (py_exn + unit) \<times> pq_state" where
  "surface_assistant py [] st = (Inr (), st)"
| "surface_assistant py (m # ms) st =
     (case getattr m ''role'' of
        Inl e \<Rightarrow> (Inl e, st)
      | Inr r \<Rightarrow>
          if r = PStr ''assistant'' then
            (case getattr m ''content'' of
               Inl e \<Rightarrow> (Inl e, st)
             | Inr mc \<Rightarrow>
                 (let content = (case getattr mc ''text'' of Inr t \<Rightarrow> t | Inl e \<Rightarrow> mc);
                      template_message = PDict [(''role'', r), (''content'', content)]
                  in surface_assistant py ms
                       (st\<lparr>final_text := final_text st @
                          [PStr (''LLM response: '' @ py_str py template_message)]\<rparr>)))
          else surface_assistant py ms st)"

text \<open>Lines 134 to 149: the body of the \<^verbatim>\<open>try\<close> around the template request.\<close>

definition expand_template ::
  "builtins \<Rightarrow> session \<Rightarrow> pq_state \<Rightarrow> (py_exn + unit) \<times> pq_state" where
  "expand_template py sess st =
     (case tool_args st of
        Some (PDict d) \<Rightarrow>
          (case map_of d ''prompt_template'' of
             None \<Rightarrow> (Inr (), st)
           | Some prompt_template \<Rightarrow>
               (case map_of d ''template_args'' of
                  None \<Rightarrow> (Inr (), st)
                | Some template_args \<Rightarrow>
                    (case dict_items template_args of
                       Inl e \<Rightarrow> (Inl e, st)
                     | Inr kvs \<Rightarrow>
                         (let string_args = map (\<lambda>kv. (fst kv, py_str py (snd kv))) kvs;
                              out = get_prompt sess (trace st) prompt_template string_args;
                              st1 = st\<lparr>trace := trace st @
                                      [GetPrompt prompt_template string_args out]\<rparr>
                          in (case out of
                                Inl e \<Rightarrow> (Inl e, st1)
                              | Inr template_response \<Rightarrow>
                                  if hasattr template_response ''messages'' \<and>
                                     hasattr template_response ''message''
                                  then
                                    (case getattr template_response ''messages'' of
                                       Inl e \<Rightarrow> (Inl e, st1)
                                     | Inr ms \<Rightarrow>
                                         (case iterate ms of
                                            Inl e \<Rightarrow> (Inl e, st1)
                                          | Inr items \<Rightarrow> surface_assistant py items st1))
                                  else (Inr (), st1))))))
      | _ \<Rightarrow> (Inr (), st))"

text \<open>Lines 132 to 151: \<^verbatim>\<open>except Exception\<close> prints and goes on, with what the body
  did before it raised.\<close>

definition template_block :: "builtins \<Rightarrow> session \<Rightarrow> pq_state \<Rightarrow> pq_state" where
  "template_block py sess st =
     (case expand_template py sess st of
        (Inr u, st1) \<Rightarrow> st1
      | (Inl e, st1) \<Rightarrow> st1)"

definition final_request :: "client \<Rightarrow> pq_state \<Rightarrow> llm_request" where
  "final_request c st =
     \<lparr>req_model = model c, req_max_tokens = 4096, req_temperature = Some (1 / 2),
      req_messages = messages st, req_tools = None\<rparr>"

text \<open>The body of the \<^verbatim>\<open>try\<close> at lines 155 to 161: the fragment to append.\<close>

definition final_fragment :: "py_exn + completion \<Rightarrow> py_exn + string" where
  "final_fragment out =
     (case out of
        Inl e \<Rightarrow> Inl e
      | Inr final_response \<Rightarrow>
          (case choices final_response of
             [] \<Rightarrow> Inl (PyExn IndexError ''list index out of range'')
           | ch # rest \<Rightarrow>
               (case cm_content ch of
                  None \<Rightarrow>
                    Inl (PyExn TypeError
                      (''can only concatenate str (not '' @ [CHR 0x22] @ ''NoneType'' @
                       [CHR 0x22] @ '') to str''))
                | Some t \<Rightarrow> Inr (''LLM final response: '' @ t))))"

text \<open>Lines 153 to 165, which stand inside the \<^verbatim>\<open>for\<close> loop.\<close>

definition final_call :: "client \<Rightarrow> pq_state \<Rightarrow> flow \<times> pq_state" where
  "final_call c st =
     (let rq = final_request c st;
          out = llm_create c (trace st) rq;
          st1 = st\<lparr>trace := trace st @ [Completion rq out]\<rparr>
      in (case final_fragment out of
            Inr frag \<Rightarrow> (Next, st1\<lparr>final_text := final_text st1 @ [PStr frag]\<rparr>)
          | Inl e \<Rightarrow>
              (let st2 = st1\<lparr>final_text := final_text st1 @
                           [PStr (''Error in final LLM call: '' @ exn_str e)]\<rparr>
               in (case join_newline (final_text st2) of
                     Inl e' \<Rightarrow> (Raise e', st2)
                   | Inr s \<Rightarrow> (Return s, st2)))))"

text \<open>One pass through the body of the \<^verbatim>\<open>for\<close> loop, lines 101 to 165.\<close>

definition tool_call_step ::
  "builtins \<Rightarrow> client \<Rightarrow> session \<Rightarrow> tool_call \<Rightarrow> pq_state \<Rightarrow> flow \<times> pq_state" where
  "tool_call_step py c sess tc st =
     (case execute_tool py sess tc (parse_arguments py tc st) of
        (Inl e, st1) \<Rightarrow> (Raise e, st1)
      | (Inr u, st1) \<Rightarrow> final_call c (template_block py sess st1))"

fun tool_loop ::
  "builtins \<Rightarrow> client \<Rightarrow> session \<Rightarrow> tool_call list \<Rightarrow> pq_state \<Rightarrow> flow \<times> pq_state" where
  "tool_loop py c sess [] st = (Next, st)"
| "tool_loop py c sess (tc # tcs) st =
     (case tool_call_step py c sess tc st of
        (Next, st1) \<Rightarrow> tool_loop py c sess tcs st1
      | (Return s, st1) \<Rightarrow> (Return s, st1)
      | (Raise e, st1) \<Rightarrow> (Raise e, st1))"

definition initial_request :: "client \<Rightarrow> pq_state \<Rightarrow> tool list \<Rightarrow> llm_request" where
  "initial_request c st tools =
     \<lparr>req_model = model c, req_max_tokens = 4096, req_temperature = None,
      req_messages = messages st, req_tools = Some (map available_tool tools)\<rparr>"

definition initial_state :: "string \<Rightarrow> pq_state" where
  "initial_state query =
     \<lparr>messages = [RoleContent ''system'' system_prompt, RoleContent ''user'' query],
      final_text = [], tool_args = None, trace = []\<rparr>"

text \<open>Lines 96 to 170, once the initial completion has returned \<open>response\<close>.\<close>

definition handle_response ::
  "builtins \<Rightarrow> client \<Rightarrow> session \<Rightarrow> completion \<Rightarrow> pq_state \<Rightarrow> (py_exn + string) \<times> pq_state" where
  "handle_response py c sess response st =
     (case choices response of
        [] \<Rightarrow> (Inl (PyExn IndexError ''list index out of range''), st)
      | ch # rest \<Rightarrow>
          (let st1 = st\<lparr>messages := messages st @ [AssistantMessage ch]\<rparr>
           in (case cm_tool_calls ch of
                 Some (tc # tcs) \<Rightarrow>
                   (case tool_loop py c sess (tc # tcs) st1 of
                      (Raise e, st2) \<Rightarrow> (Inl e, st2)
                    | (Return s, st2) \<Rightarrow> (Inr s, st2)
                    | (Next, st2) \<Rightarrow> (join_newline (final_text st2), st2))
               | _ \<Rightarrow>
                   (let st2 = st1\<lparr>final_text := final_text st1 @
                                [case cm_content ch of None \<Rightarrow> PNone | Some t \<Rightarrow> PStr t]\<rparr>
                    in (join_newline (final_text st2), st2)))))"

text \<open>
  \<^verbatim>\<open>process_query\<close>: the result (the string returned, or the exception raised) and the
  final state. When the initial completion raises, the \<^verbatim>\<open>except\<close> clause prints and
  \<^verbatim>\<open>response\<close> is still the result of \<^verbatim>\<open>list_tools\<close>, which has no \<^verbatim>\<open>choices\<close>.
\<close>

definition process_query ::
  "builtins \<Rightarrow> client \<Rightarrow> string \<Rightarrow> (py_exn + string) \<times> pq_state" where
  "process_query py c query =
     (let st0 = initial_state query
      in (case session c of
            None \<Rightarrow>
              (Inl (PyExn AttributeError ''NoneType object has no attribute list_tools''), st0)
          | Some sess \<Rightarrow>
              (let r1 = list_tools sess (trace st0);
                   st1 = st0\<lparr>trace := trace st0 @ [ListTools r1]\<rparr>
               in (case r1 of
                     Inl e \<Rightarrow> (Inl e, st1)
                   | Inr tools \<Rightarrow>
                       (let rq = initial_request c st1 tools;
                            r2 = llm_create c (trace st1) rq;
                            st2 = st1\<lparr>trace := trace st1 @ [Completion rq r2]\<rparr>
                        in (case r2 of
                              Inl e \<Rightarrow>
                                (Inl (PyExn AttributeError
                                   ''ListToolsResult object has no attribute choices''), st2)
                            | Inr response \<Rightarrow> handle_response py c sess response st2))))))"

section \<open>A scripted environment for concrete runs\<close>

text \<open>
  A stand-in for \<^verbatim>\<open>str\<close> on the values of the examples: a string is itself, a
  container prints as Python prints it when its strings hold no quote, backslash or
  control character, an object prints its class and its attributes.
\<close>

fun digits :: "nat \<Rightarrow> string" where
  "digits n =
     (if n < 10 then [char_of (48 + n)] else digits (n div 10) @ [char_of (48 + n mod 10)])"

fun demo_repr :: "pyval \<Rightarrow> string" where
  "demo_repr PNone = ''None''"
| "demo_repr (PBool b) = (if b then ''True'' else ''False'')"
| "demo_repr (PInt i) = (if i < 0 then ''-'' @ digits (nat (- i)) else digits (nat i))"
| "demo_repr (PStr s) = [CHR 0x27] @ s @ [CHR 0x27]"
| "demo_repr (PList xs) = ''['' @ join '', '' (map demo_repr xs) @ '']''"
| "demo_repr (PDict d) =
     ''{'' @ join '', ''
        (map (\<lambda>kv. [CHR 0x27] @ fst kv @ [CHR 0x27] @ '': '' @ demo_repr (snd kv)) d) @ ''}''"
| "demo_repr (PObj cls attrs) =
     cls @ ''('' @ join '', '' (map (\<lambda>kv. fst kv @ ''='' @ demo_repr (snd kv)) attrs) @ '')''"

definition demo_str :: "pyval \<Rightarrow> string" where
  "demo_str v = (case v of PStr s \<Rightarrow> s | _ \<Rightarrow> demo_repr v)"

text \<open>
  \<^verbatim>\<open>json.loads\<close> on the three argument texts of the examples: an empty object, an
  object holding a template request, and anything else, taken as malformed.
\<close>

definition template_json :: string where
  "template_json = ''{template request}''"

definition template_args_value :: pyval where
  "template_args_value =
     PDict [(''prompt_template'', PStr ''worker_summary''),
            (''template_args'', PDict [(''worker_id'', PInt 42)])]"

definition demo_loads :: "string \<Rightarrow> py_exn + pyval" where
  "demo_loads s =
     (if s = ''{}'' then Inr (PDict [])
      else if s = template_json then Inr template_args_value
      else Inl (PyExn ValueError ''Expecting value''))"

definition demo_py :: builtins where
  "demo_py = \<lparr>py_str = demo_str, json_loads = demo_loads\<rparr>"

definition demo_tool :: tool where
  "demo_tool =
     \<lparr>tool_name = ''get_workers_tool'',
      tool_description = PStr ''Tool to retrieve worker data with optional parameters'',
      tool_inputSchema = PDict [(''type'', PStr ''object'')]\<rparr>"

text \<open>A session that answers every tool call and every prompt request the same way.\<close>

definition scripted_session :: "(py_exn + pyval) \<Rightarrow> (py_exn + pyval) \<Rightarrow> session" where
  "scripted_session tool_outcome prompt_outcome =
     \<lparr>initialize = (\<lambda>t. Inr ()),
      list_tools = (\<lambda>t. Inr [demo_tool]),
      call_tool = (\<lambda>t name args. tool_outcome),
      get_prompt = (\<lambda>t name args. prompt_outcome)\<rparr>"

fun is_final_completion :: "event \<Rightarrow> bool" where
  "is_final_completion (Completion rq out) = (req_tools rq = None)"
| "is_final_completion ev = False"

text \<open>
  A model that answers the call with tools by \<open>first\<close>, and the \<open>k\<close>-th call without
  tools (counting from 0) by \<open>later k\<close>.
\<close>

definition scripted_client ::
  "session option \<Rightarrow> completion \<Rightarrow> (nat \<Rightarrow> py_exn + completion) \<Rightarrow> client" where
  "scripted_client s first later =
     \<lparr>session = s, transport = None,
      llm_create = (\<lambda>t rq.
        if req_tools rq \<noteq> None then Inr first
        else later (length (filter is_final_completion t))),
      model = ''gpt-3.5-turbo'',
      aclose = (\<lambda>t. Inr ())\<rparr>"

definition text_reply :: "string \<Rightarrow> completion" where
  "text_reply t = \<lparr>choices = [\<lparr>cm_content = Some t, cm_tool_calls = None\<rparr>]\<rparr>"

definition tool_reply :: "tool_call list \<Rightarrow> completion" where
  "tool_reply tcs = \<lparr>choices = [\<lparr>cm_content = None, cm_tool_calls = Some tcs\<rparr>]\<rparr>"

definition call_1 :: tool_call where
  "call_1 = \<lparr>tc_id = ''call_1'', tc_name = ''get_workers_tool'', tc_arguments = ''{}''\<rparr>"

definition call_2 :: tool_call where
  "call_2 = \<lparr>tc_id = ''call_2'', tc_name = ''get_workers_tool'', tc_arguments = ''{}''\<rparr>"

definition bad_call :: tool_call where
  "bad_call = \<lparr>tc_id = ''call_3'', tc_name = ''get_workers_tool'', tc_arguments = ''{''\<rparr>"

definition template_call :: tool_call where
  "template_call =
     \<lparr>tc_id = ''call_4'', tc_name = ''get_workers_tool'', tc_arguments = template_json\<rparr>"

text \<open>What \<^verbatim>\<open>call_tool\<close> returns: an object whose \<^verbatim>\<open>content\<close> is a list of text items.\<close>

definition tool_result :: "string \<Rightarrow> pyval" where
  "tool_result t =
     PObj ''CallToolResult''
       [(''content'', PList [PObj ''TextContent'' [(''type'', PStr ''text''), (''text'', PStr t)]]),
        (''isError'', PBool False)]"

definition prompt_message :: "string \<Rightarrow> string \<Rightarrow> pyval" where
  "prompt_message r t =
     PObj ''PromptMessage''
       [(''role'', PStr r),
        (''content'', PObj ''TextContent'' [(''type'', PStr ''text''), (''text'', PStr t)])]"

text \<open>A rendered template that also carries an attribute \<^verbatim>\<open>message\<close>.\<close>

definition prompt_result :: pyval where
  "prompt_result =
     PObj ''GetPromptResult''
       [(''messages'', PList [prompt_message ''user'' ''Summarise'',
                             prompt_message ''assistant'' ''Summary'']),
        (''message'', PNone)]"

section \<open>Predicates on events\<close>

text \<open>
  The events the loop over the tool calls can add: tool calls, prompt requests, and
  completions requested without tools and with temperature 0.5.
\<close>

fun loop_event :: "event \<Rightarrow> bool" where
  "loop_event (CallTool name args out) = True"
| "loop_event (GetPrompt name args out) = True"
| "loop_event (Completion rq out) = (req_tools rq = None \<and> req_temperature rq = Some (1 / 2))"
| "loop_event ev = False"

fun event_kind :: "event \<Rightarrow> string" where
  "event_kind (OpenTransport cmd args out) = ''stdio_client''"
| "event_kind (OpenSession tr out) = ''ClientSession''"
| "event_kind (Initialize out) = ''initialize''"
| "event_kind (ListTools out) = ''list_tools''"
| "event_kind (Completion rq out) =
     (if req_tools rq = None then ''completion without tools'' else ''completion with tools'')"
| "event_kind (CallTool name args out) = ''call_tool''"
| "event_kind (GetPrompt name args out) = ''get_prompt''"

text \<open>The \<^verbatim>\<open>tool_call_id\<close>s of the tool messages of a conversation, in order.\<close>

fun tool_message_ids :: "message list \<Rightarrow> string list" where
  "tool_message_ids [] = []"
| "tool_message_ids (ToolMessage i v # ms) = i # tool_message_ids ms"
| "tool_message_ids (m # ms) = tool_message_ids ms"

text \<open>The arguments the tools were called with, in order.\<close>

fun called_with :: "event list \<Rightarrow> pyval list" where
  "called_with [] = []"
| "called_with (CallTool name args out # evs) = args # called_with evs"
| "called_with (ev # evs) = called_with evs"

text \<open>A completion requested without tools that raised, or whose text could not be read.\<close>

fun failed_final :: "event \<Rightarrow> bool" where
  "failed_final (Completion rq out) =
     (req_tools rq = None \<and> (case final_fragment out of Inl e \<Rightarrow> True | Inr frag \<Rightarrow> False))"
| "failed_final ev = False"

text \<open>
  A tool call that returned a result, with the two fragments lines 109 and 121 append
  for it both among \<open>frs\<close>: the line that announces the call, and \<^verbatim>\<open>str\<close> of the
  whole response. Other events pass.
\<close>

fun reported :: "builtins \<Rightarrow> pyval list \<Rightarrow> event \<Rightarrow> bool" where
  "reported py frs (CallTool name args out) =
     (case out of
        Inl e \<Rightarrow> False
      | Inr r \<Rightarrow>
          PStr (''Calling tool '' @ name @ '' with args '' @ py_str py args) \<in> set frs \<and>
          PStr (py_str py r) \<in> set frs)"
| "reported py frs ev = True"

fun is_call_tool :: "event \<Rightarrow> bool" where
  "is_call_tool (CallTool name args out) = True"
| "is_call_tool ev = False"

definition no_failed_final :: "event list \<Rightarrow> bool" where
  "no_failed_final evs = list_all (\<lambda>ev. \<not> failed_final ev) evs"

text \<open>What holds each time the loop over the tool calls starts a pass.\<close>

definition loop_inv :: "builtins \<Rightarrow> pq_state \<Rightarrow> bool" where
  "loop_inv py st =
     (no_failed_final (trace st) \<and> str_items (final_text st) \<noteq> None \<and>
      list_all (reported py (final_text st)) (trace st))"

text \<open>What holds when the loop returns from a failed completion.\<close>

definition returned_after_failure :: "builtins \<Rightarrow> string \<Rightarrow> pq_state \<Rightarrow> bool" where
  "returned_after_failure py s st =
     (join_newline (final_text st) = Inr s \<and>
      list_all (reported py (final_text st)) (trace st) \<and>
      list_ex is_call_tool (trace st) \<and>
      (\<exists>evs rq out e. trace st = evs @ [Completion rq out] \<and> no_failed_final evs \<and>
         final_fragment out = Inl e \<and>
         last (final_text st) = PStr (''Error in final LLM call: '' @ exn_str e)))"

fun loop_post :: "builtins \<Rightarrow> flow \<Rightarrow> pq_state \<Rightarrow> bool" where
  "loop_post py Next st = loop_inv py st"
| "loop_post py (Raise e) st = no_failed_final (trace st)"
| "loop_post py (Return s) st = returned_after_failure py s st"

section \<open>Rendered templates\<close>

text \<open>Line 143: the test on a message of a rendered template.\<close>

definition is_assistant :: "pyval \<Rightarrow> bool" where
  "is_assistant m = (getattr m ''role'' = Inr (PStr ''assistant''))"

text \<open>Lines 144 to 149: the fragment an assistant message yields, when it has a content.\<close>

definition content_line :: "builtins \<Rightarrow> pyval \<Rightarrow> string option" where
  "content_line py m =
     (case getattr m ''content'' of
        Inl e \<Rightarrow> None
      | Inr mc \<Rightarrow>
          Some (''LLM response: '' @
                py_str py (PDict [(''role'', PStr ''assistant''),
                                  (''content'', case getattr mc ''text'' of Inr t \<Rightarrow> t | Inl e \<Rightarrow> mc)])))"

text \<open>The messages of a template that \<^verbatim>\<open>get_prompt\<close> returned.\<close>

fun rendered :: "event \<Rightarrow> pyval list" where
  "rendered (GetPrompt name args (Inr template_response)) =
     (case getattr template_response ''messages'' of
        Inl e \<Rightarrow> []
      | Inr ms \<Rightarrow> (case iterate ms of Inl e \<Rightarrow> [] | Inr items \<Rightarrow> items))"
| "rendered ev = []"

text \<open>A rendered template whose third message has no \<^verbatim>\<open>role\<close>.\<close>

definition broken_prompt_result :: pyval where
  "broken_prompt_result =
     PObj ''GetPromptResult''
       [(''messages'', PList [prompt_message ''user'' ''Summarise'',
                             prompt_message ''assistant'' ''Summary'',
                             PStr ''stray'']),
        (''message'', PNone)]"

text \<open>What \<^verbatim>\<open>call_tool\<close> returns when the server reports that the tool failed.\<close>

definition tool_error_result :: "string \<Rightarrow> pyval" where
  "tool_error_result t =
     PObj ''CallToolResult''
       [(''content'', PList [PObj ''TextContent'' [(''type'', PStr ''text''), (''text'', PStr t)]]),
        (''isError'', PBool True)]"

section \<open>What each block does to the trace\<close>

lemma parse_arguments_frame [simp]:
  "messages (parse_arguments py tc st) = messages st"
  "final_text (parse_arguments py tc st) = final_text st"
  "trace (parse_arguments py tc st) = trace st"
  by (simp_all add: parse_arguments_def split: sum.splits)

lemma execute_tool_trace:
  "execute_tool py sess tc st = (r, st') \<Longrightarrow> \<exists>es. trace st' = trace st @ es \<and> list_all loop_event es"
  by (auto simp: execute_tool_def Let_def split: option.splits sum.splits)

lemma surface_assistant_trace [simp]:
  "trace (snd (surface_assistant py items st)) = trace st"
  by (induction items arbitrary: st) (auto simp: Let_def split: sum.splits)

lemma surface_assistant_messages [simp]:
  "messages (snd (surface_assistant py items st)) = messages st"
  by (induction items arbitrary: st) (auto simp: Let_def split: sum.splits)

lemma expand_template_trace:
  "\<exists>es. trace (snd (expand_template py sess st)) = trace st @ es \<and> list_all loop_event es"
  by (auto simp: expand_template_def Let_def split: option.splits sum.splits pyval.splits)

lemma template_block_eq: "template_block py sess st = snd (expand_template py sess st)"
  by (simp add: template_block_def split: prod.splits sum.splits)

lemma final_call_trace:
  "final_call c st = (fl, st') \<Longrightarrow> \<exists>es. trace st' = trace st @ es \<and> list_all loop_event es"
  by (auto simp: final_call_def final_request_def Let_def split: sum.splits)

lemma tool_call_step_trace:
  assumes "tool_call_step py c sess tc st = (fl, st')"
  shows "\<exists>es. trace st' = trace st @ es \<and> list_all loop_event es"
proof (cases "execute_tool py sess tc (parse_arguments py tc st)")
  case (Pair r st1)
  from execute_tool_trace [OF Pair] obtain es1
    where e1: "trace st1 = trace st @ es1" "list_all loop_event es1" by auto
  show ?thesis
  proof (cases r)
    case (Inl e)
    with assms Pair e1 show ?thesis by (auto simp: tool_call_step_def)
  next
    case (Inr u)
    with assms Pair have fc: "final_call c (template_block py sess st1) = (fl, st')"
      by (simp add: tool_call_step_def)
    obtain es2 where e2: "trace (template_block py sess st1) = trace st1 @ es2" "list_all loop_event es2"
      using expand_template_trace [of py sess st1] by (auto simp: template_block_eq)
    from final_call_trace [OF fc] obtain es3
      where e3: "trace st' = trace (template_block py sess st1) @ es3" "list_all loop_event es3" by auto
    from e1 e2 e3 show ?thesis by auto
  qed
qed

lemma tool_loop_trace:
  "tool_loop py c sess tcs st = (fl, st') \<Longrightarrow> \<exists>es. trace st' = trace st @ es \<and> list_all loop_event es"
proof (induction tcs arbitrary: st)
  case Nil
  then show ?case by simp
next
  case (Cons tc tcs)
  obtain fl1 st1 where s: "tool_call_step py c sess tc st = (fl1, st1)" by (cases "tool_call_step py c sess tc st")
  from tool_call_step_trace [OF s] obtain es1
    where e1: "trace st1 = trace st @ es1" "list_all loop_event es1" by auto
  show ?case
  proof (cases fl1)
    case Next
    with Cons.prems s have "tool_loop py c sess tcs st1 = (fl, st')" by simp
    from Cons.IH [OF this] e1 show ?thesis by auto
  next
    case (Return x)
    with Cons.prems s e1 show ?thesis by auto
  next
    case (Raise e)
    with Cons.prems s e1 show ?thesis by auto
  qed
qed

lemma handle_response_trace:
  assumes "handle_response py c sess response st = (res, st')"
  shows "\<exists>es. trace st' = trace st @ es \<and> list_all loop_event es"
proof (cases "choices response")
  case Nil
  with assms show ?thesis by (auto simp: handle_response_def)
next
  case (Cons ch rest)
  define st1 where "st1 = st\<lparr>messages := messages st @ [AssistantMessage ch]\<rparr>"
  show ?thesis
  proof (cases "\<exists>tc tcs. cm_tool_calls ch = Some (tc # tcs)")
    case True
    then obtain tc tcs where tcs: "cm_tool_calls ch = Some (tc # tcs)" by auto
    obtain fl st2 where l: "tool_loop py c sess (tc # tcs) st1 = (fl, st2)"
      by (cases "tool_loop py c sess (tc # tcs) st1")
    from tool_loop_trace [OF l] obtain es where "trace st2 = trace st1 @ es" "list_all loop_event es"
      by auto
    moreover from assms Cons tcs l have "st' = st2"
      by (cases fl) (auto simp: handle_response_def Let_def st1_def)
    ultimately show ?thesis by (auto simp: st1_def)
  next
    case False
    with assms Cons show ?thesis
      by (auto simp: handle_response_def Let_def split: option.splits list.splits)
  qed
qed

section \<open>The invariant of the loop over the tool calls\<close>

lemma str_items_snoc:
  "str_items (xs @ [PStr s]) = (case str_items xs of None \<Rightarrow> None | Some ss \<Rightarrow> Some (ss @ [s]))"
  by (induction xs rule: str_items.induct) (auto split: option.splits)

lemma reported_mono: "reported py frs ev \<Longrightarrow> reported py (frs @ frs2) ev"
  by (cases ev) (auto split: sum.splits)

lemma list_all_reported_mono:
  "list_all (reported py frs) evs \<Longrightarrow> list_all (reported py (frs @ frs2)) evs"
  by (induction evs) (auto intro: reported_mono)

lemma normalize_result_str:
  assumes "normalize_result py r = Inr t"
  shows "t = PStr (py_str py r)"
proof (cases r)
  case (PObj cls attrs)
  with assms show ?thesis by (auto simp: normalize_result_def split: sum.splits option.splits)
qed (use assms in \<open>auto simp: normalize_result_def\<close>)

lemma parse_arguments_inv: "loop_inv py st \<Longrightarrow> loop_inv py (parse_arguments py tc st)"
  by (simp add: loop_inv_def)

lemma execute_tool_inv:
  assumes inv: "loop_inv py st" and ex: "execute_tool py sess tc st = (r, st1)"
  shows "case r of Inl e \<Rightarrow> no_failed_final (trace st1)
         | Inr u \<Rightarrow> loop_inv py st1 \<and> list_ex is_call_tool (trace st1)"
proof (cases "tool_args st")
  case None
  with ex inv show ?thesis by (auto simp: execute_tool_def loop_inv_def)
next
  case (Some args)
  define ann where "ann = PStr (announcement py (tc_name tc) args)"
  define out where "out = call_tool sess (trace st) (tc_name tc) args"
  define ev where "ev = CallTool (tc_name tc) args out"
  have nf: "no_failed_final (trace st @ [ev])"
    using inv by (simp add: loop_inv_def no_failed_final_def ev_def)
  show ?thesis
  proof (cases out)
    case (Inl e)
    with ex Some have "r = Inl e" "trace st1 = trace st @ [ev]"
      by (auto simp: execute_tool_def Let_def out_def ev_def)
    with nf show ?thesis by simp
  next
    case out_r: (Inr resp)
    show ?thesis
    proof (cases "normalize_result py resp")
      case (Inl e)
      with ex Some out_r have "r = Inl e" "trace st1 = trace st @ [ev]"
        by (auto simp: execute_tool_def Let_def out_def ev_def)
      with nf show ?thesis by simp
    next
      case (Inr t)
      define s where "s = py_str py resp"
      from normalize_result_str [OF Inr] have t: "t = PStr s" by (simp add: s_def)
      from ex Some out_r Inr have r: "r = Inr ()"
        and tr: "trace st1 = trace st @ [ev]"
        and ft: "final_text st1 = final_text st @ [ann, t]"
        by (auto simp: execute_tool_def Let_def out_def ev_def ann_def)
      have "str_items (final_text st @ [ann, PStr s]) \<noteq> None"
        using inv str_items_snoc [of "final_text st @ [ann]" s]
          str_items_snoc [of "final_text st" "announcement py (tc_name tc) args"]
        by (auto simp: loop_inv_def ann_def split: option.splits)
      moreover have "list_all (reported py (final_text st @ [ann, t])) (trace st)"
        using inv by (auto simp: loop_inv_def intro: list_all_reported_mono)
      moreover have "reported py (final_text st @ [ann, t]) ev"
        using out_r t by (simp add: ev_def ann_def announcement_def s_def)
      ultimately show ?thesis using r tr ft nf t
        by (simp add: loop_inv_def ev_def)
    qed
  qed
qed

section \<open>The template request\<close>

lemma surface_assistant_frame:
  "tool_args (snd (surface_assistant py items st)) = tool_args st"
  by (induction items arbitrary: st) (auto simp: Let_def split: sum.splits)

lemma surface_assistant_lines:
  "\<exists>k. final_text (snd (surface_assistant py items st)) =
        final_text st @ map PStr (List.map_filter (content_line py) (filter is_assistant (take k items)))"
proof (induction items arbitrary: st)
  case Nil
  then show ?case by (simp add: map_filter_simps)
next
  case (Cons m ms)
  show ?case
  proof (cases "getattr m ''role''")
    case (Inl e)
    then have "final_text (snd (surface_assistant py (m # ms) st)) =
          final_text st @ map PStr (List.map_filter (content_line py) (filter is_assistant (take 0 (m # ms))))"
      by (simp add: map_filter_simps)
    then show ?thesis by blast
  next
    case role: (Inr r)
    show ?thesis
    proof (cases "r = PStr ''assistant''")
      case False
      from Cons.IH [of st] obtain k where
        "final_text (snd (surface_assistant py ms st)) =
          final_text st @ map PStr (List.map_filter (content_line py) (filter is_assistant (take k ms)))"
        by blast
      with role False have "final_text (snd (surface_assistant py (m # ms) st)) =
          final_text st @ map PStr (List.map_filter (content_line py) (filter is_assistant (take (Suc k) (m # ms))))"
        by (simp add: is_assistant_def)
      then show ?thesis by blast
    next
      case True
      show ?thesis
      proof (cases "getattr m ''content''")
        case (Inl e)
        with role True have "final_text (snd (surface_assistant py (m # ms) st)) =
          final_text st @ map PStr (List.map_filter (content_line py) (filter is_assistant (take 0 (m # ms))))"
          by (simp add: map_filter_simps)
        then show ?thesis by blast
      next
        case (Inr mc)
        define line where "line = ''LLM response: '' @
                py_str py (PDict [(''role'', PStr ''assistant''),
                                  (''content'', case getattr mc ''text'' of Inr t \<Rightarrow> t | Inl e \<Rightarrow> mc)])"
        define st1 where "st1 = st\<lparr>final_text := final_text st @ [PStr line]\<rparr>"
        have cl: "content_line py m = Some line"
          using Inr by (simp add: content_line_def line_def)
        have step: "surface_assistant py (m # ms) st = surface_assistant py ms st1"
          using role True Inr by (simp add: Let_def st1_def line_def)
        from Cons.IH [of st1] obtain k where
          "final_text (snd (surface_assistant py ms st1)) =
            final_text st1 @ map PStr (List.map_filter (content_line py) (filter is_assistant (take k ms)))"
          by blast
        with step cl role True have "final_text (snd (surface_assistant py (m # ms) st)) =
          final_text st @ map PStr (List.map_filter (content_line py) (filter is_assistant (take (Suc k) (m # ms))))"
          by (simp add: is_assistant_def map_filter_simps st1_def)
        then show ?thesis by blast
      qed
    qed
  qed
qed

lemma expand_template_cases:
  "snd (expand_template py sess st) = st \<or>
   (\<exists>n a out. snd (expand_template py sess st) = st\<lparr>trace := trace st @ [GetPrompt n a out]\<rparr>) \<or>
   (\<exists>n a resp. snd (expand_template py sess st) =
      snd (surface_assistant py (rendered (GetPrompt n a (Inr resp)))
             (st\<lparr>trace := trace st @ [GetPrompt n a (Inr resp)]\<rparr>)))"
proof (cases "tool_args st")
  case None
  then show ?thesis by (simp add: expand_template_def)
next
  case (Some a)
  show ?thesis
  proof (cases a)
    case (PDict d)
    show ?thesis
    proof (cases "map_of d ''prompt_template''")
      case None
      with Some PDict show ?thesis by (simp add: expand_template_def)
    next
      case pt: (Some prompt_template)
      show ?thesis
      proof (cases "map_of d ''template_args''")
        case None
        with Some PDict pt show ?thesis by (simp add: expand_template_def)
      next
        case ta: (Some template_args)
        show ?thesis
        proof (cases "dict_items template_args")
          case (Inl e)
          with Some PDict pt ta show ?thesis by (simp add: expand_template_def)
        next
          case (Inr kvs)
          define string_args where "string_args = map (\<lambda>kv. (fst kv, py_str py (snd kv))) kvs"
          define out where "out = get_prompt sess (trace st) prompt_template string_args"
          define st1 where "st1 = st\<lparr>trace := trace st @ [GetPrompt prompt_template string_args out]\<rparr>"
          show ?thesis
          proof (cases out)
            case (Inl e)
            with Some PDict pt ta Inr have "snd (expand_template py sess st) = st1"
              by (simp add: expand_template_def Let_def st1_def out_def string_args_def)
            then show ?thesis unfolding st1_def by blast
          next
            case resp: (Inr template_response)
            show ?thesis
            proof (cases "hasattr template_response ''messages'' \<and> hasattr template_response ''message''")
              case False
              with Some PDict pt ta Inr resp have "snd (expand_template py sess st) = st1"
                by (auto simp: expand_template_def Let_def st1_def out_def string_args_def)
              then show ?thesis unfolding st1_def by blast
            next
              case True
              then obtain ms where ms: "getattr template_response ''messages'' = Inr ms"
                by (auto simp: hasattr_def split: sum.splits)
              show ?thesis
              proof (cases "iterate ms")
                case (Inl e)
                with Some PDict pt ta Inr resp True ms have "snd (expand_template py sess st) = st1"
                  by (auto simp: expand_template_def Let_def st1_def out_def string_args_def)
                then show ?thesis unfolding st1_def by blast
              next
                case items: (Inr items)
                with Some PDict pt ta Inr resp True ms
                have "snd (expand_template py sess st) = snd (surface_assistant py items st1)"
                  by (auto simp: expand_template_def Let_def st1_def out_def string_args_def)
                moreover have "rendered (GetPrompt prompt_template string_args (Inr template_response)) = items"
                  using ms items by simp
                ultimately show ?thesis unfolding st1_def resp by blast
              qed
            qed
          qed
        qed
      qed
    qed
  qed (use Some in \<open>simp_all add: expand_template_def\<close>)
qed

lemma expand_template_effect:
  "\<exists>evs k. trace (snd (expand_template py sess st)) = trace st @ evs \<and>
     list_all (\<lambda>ev. event_kind ev = ''get_prompt'') evs \<and>
     final_text (snd (expand_template py sess st)) =
       final_text st @ map PStr (List.map_filter (content_line py)
                                   (filter is_assistant (take k (concat (map rendered evs))))) \<and>
     messages (snd (expand_template py sess st)) = messages st \<and>
     tool_args (snd (expand_template py sess st)) = tool_args st"
proof -
  let ?st' = "snd (expand_template py sess st)"
  let ?P = "\<lambda>evs k. trace ?st' = trace st @ evs \<and>
     list_all (\<lambda>ev. event_kind ev = ''get_prompt'') evs \<and>
     final_text ?st' =
       final_text st @ map PStr (List.map_filter (content_line py)
                                   (filter is_assistant (take k (concat (map rendered evs))))) \<and>
     messages ?st' = messages st \<and> tool_args ?st' = tool_args st"
  from expand_template_cases [of py sess st]
  consider (same) "?st' = st"
    | (asked) n a out where "?st' = st\<lparr>trace := trace st @ [GetPrompt n a out]\<rparr>"
    | (surfaced) n a resp where "?st' =
      snd (surface_assistant py (rendered (GetPrompt n a (Inr resp)))
             (st\<lparr>trace := trace st @ [GetPrompt n a (Inr resp)]\<rparr>))"
    by blast
  then show ?thesis
  proof cases
    case same
    then have "?P [] 0" by (simp add: map_filter_simps)
    then show ?thesis by blast
  next
    case asked
    then have "?P [GetPrompt n a out] 0" by (simp add: map_filter_simps)
    then show ?thesis by blast
  next
    case surfaced
    let ?ev = "GetPrompt n a (Inr resp)"
    let ?st1 = "st\<lparr>trace := trace st @ [?ev]\<rparr>"
    from surface_assistant_lines [of py "rendered ?ev" ?st1] obtain k where
      "final_text (snd (surface_assistant py (rendered ?ev) ?st1)) =
        final_text ?st1 @ map PStr (List.map_filter (content_line py) (filter is_assistant (take k (rendered ?ev))))"
      by blast
    with surfaced have "?P [?ev] k"
      by (simp add: surface_assistant_frame)
    then show ?thesis by blast
  qed
qed

section \<open>The invariant through a pass, the loop and the query\<close>

lemma str_items_append_strs:
  "str_items (xs @ map PStr ls) = (case str_items xs of None \<Rightarrow> None | Some ss \<Rightarrow> Some (ss @ ls))"
proof (induction ls arbitrary: xs)
  case Nil
  then show ?case by (simp split: option.splits)
next
  case (Cons l ls)
  have "str_items (xs @ map PStr (l # ls)) = str_items ((xs @ [PStr l]) @ map PStr ls)" by simp
  also have "\<dots> = (case str_items (xs @ [PStr l]) of None \<Rightarrow> None | Some ss \<Rightarrow> Some (ss @ ls))"
    by (rule Cons.IH)
  finally show ?case by (simp add: str_items_snoc split: option.splits)
qed

lemma get_prompt_event:
  assumes "event_kind ev = ''get_prompt''"
  shows "\<not> failed_final ev" "reported py frs ev" "\<not> is_call_tool ev"
  using assms by (cases ev; simp split: if_splits)+

lemma template_block_inv:
  assumes "loop_inv py st"
  shows "loop_inv py (template_block py sess st)"
proof -
  from expand_template_effect [of py sess st] obtain evs ls where
    tr: "trace (template_block py sess st) = trace st @ evs"
    and evs: "list_all (\<lambda>ev. event_kind ev = ''get_prompt'') evs"
    and ft: "final_text (template_block py sess st) = final_text st @ map PStr ls"
    unfolding template_block_eq by blast
  from evs have "list_all (\<lambda>ev. \<not> failed_final ev) evs"
    and "list_all (reported py (final_text st @ map PStr ls)) evs"
    by (auto simp: list_all_iff get_prompt_event)
  moreover have "list_all (reported py (final_text st @ map PStr ls)) (trace st)"
    using assms by (auto simp: loop_inv_def intro: list_all_reported_mono)
  moreover have "str_items (final_text st @ map PStr ls) \<noteq> None"
    using assms by (auto simp: loop_inv_def str_items_append_strs split: option.splits)
  ultimately show ?thesis
    using assms tr ft by (simp add: loop_inv_def no_failed_final_def)
qed

lemma template_block_called:
  "list_ex is_call_tool (trace st) \<Longrightarrow> list_ex is_call_tool (trace (template_block py sess st))"
  using expand_template_effect [of py sess st] unfolding template_block_eq
  by (auto simp: list_ex_iff)

lemma final_call_post:
  assumes inv: "loop_inv py st" and called: "list_ex is_call_tool (trace st)"
    and fc: "final_call c st = (fl, st')"
  shows "loop_post py fl st'"
proof -
  define rq where "rq = final_request c st"
  define out where "out = llm_create c (trace st) rq"
  have rq: "req_tools rq = None" by (simp add: rq_def final_request_def)
  show ?thesis
  proof (cases "final_fragment out")
    case (Inr frag)
    with fc have fl: "fl = Next"
      and st': "st' = st\<lparr>trace := trace st @ [Completion rq out],
                         final_text := final_text st @ [PStr frag]\<rparr>"
      by (auto simp: final_call_def Let_def rq_def out_def)
    have "list_all (reported py (final_text st @ [PStr frag])) (trace st)"
      using inv by (auto simp: loop_inv_def intro: list_all_reported_mono)
    with inv Inr have "loop_inv py st'"
      by (simp add: st' loop_inv_def no_failed_final_def str_items_snoc split: option.splits)
    with fl show ?thesis by simp
  next
    case (Inl e)
    define frs where "frs = final_text st @ [PStr (''Error in final LLM call: '' @ exn_str e)]"
    define st2 where "st2 = st\<lparr>trace := trace st @ [Completion rq out], final_text := frs\<rparr>"
    from inv obtain ss where ss: "str_items (final_text st) = Some ss"
      by (auto simp: loop_inv_def)
    then have j: "join_newline frs =
        Inr (join [CHR 0x0A] (ss @ [''Error in final LLM call: '' @ exn_str e]))"
      by (simp add: frs_def join_newline_def str_items_snoc)
    with fc Inl have fl: "fl = Return (join [CHR 0x0A] (ss @ [''Error in final LLM call: '' @ exn_str e]))"
      and st': "st' = st2"
      by (auto simp: final_call_def Let_def rq_def out_def st2_def frs_def)
    have "list_all (reported py frs) (trace st)"
      using inv by (auto simp: loop_inv_def frs_def intro: list_all_reported_mono)
    moreover have "no_failed_final (trace st)" using inv by (simp add: loop_inv_def)
    moreover have "last frs = PStr (''Error in final LLM call: '' @ exn_str e)"
      by (simp add: frs_def)
    ultimately have "returned_after_failure py
        (join [CHR 0x0A] (ss @ [''Error in final LLM call: '' @ exn_str e])) st2"
      using j called Inl by (auto simp: returned_after_failure_def st2_def)
    with fl st' show ?thesis by simp
  qed
qed

lemma tool_call_step_post:
  assumes inv: "loop_inv py st" and step: "tool_call_step py c sess tc st = (fl, st')"
  shows "loop_post py fl st'"
proof (cases "execute_tool py sess tc (parse_arguments py tc st)")
  case (Pair r st1)
  from execute_tool_inv [OF parse_arguments_inv [OF inv] Pair]
  have post1: "case r of Inl e \<Rightarrow> no_failed_final (trace st1)
         | Inr u \<Rightarrow> loop_inv py st1 \<and> list_ex is_call_tool (trace st1)" .
  show ?thesis
  proof (cases r)
    case (Inl e)
    with step Pair post1 show ?thesis by (auto simp: tool_call_step_def)
  next
    case (Inr u)
    with step Pair have fc: "final_call c (template_block py sess st1) = (fl, st')"
      by (simp add: tool_call_step_def)
    from Inr post1 have "loop_inv py st1" "list_ex is_call_tool (trace st1)" by simp_all
    then show ?thesis
      using final_call_post [OF template_block_inv template_block_called fc] by blast
  qed
qed

lemma tool_loop_post:
  "loop_inv py st \<Longrightarrow> tool_loop py c sess tcs st = (fl, st') \<Longrightarrow> loop_post py fl st'"
proof (induction tcs arbitrary: st)
  case Nil
  then show ?case by simp
next
  case (Cons tc tcs)
  obtain fl1 st1 where s: "tool_call_step py c sess tc st = (fl1, st1)"
    by (cases "tool_call_step py c sess tc st")
  from tool_call_step_post [OF Cons.prems(1) s] have p1: "loop_post py fl1 st1" .
  show ?case
  proof (cases fl1)
    case Next
    with Cons.prems(2) s have "tool_loop py c sess tcs st1 = (fl, st')" by simp
    moreover from p1 Next have "loop_inv py st1" by simp
    ultimately show ?thesis by (rule Cons.IH [rotated])
  next
    case (Return x)
    with Cons.prems(2) s p1 show ?thesis by auto
  next
    case (Raise e)
    with Cons.prems(2) s p1 show ?thesis by auto
  qed
qed

lemma handle_response_post:
  assumes inv: "loop_inv py st" and hr: "handle_response py c sess response st = (res, st')"
  shows "no_failed_final (trace st') \<or> (\<exists>s. res = Inr s \<and> returned_after_failure py s st')"
proof (cases "choices response")
  case Nil
  with hr inv show ?thesis by (auto simp: handle_response_def loop_inv_def)
next
  case (Cons ch rest)
  define st1 where "st1 = st\<lparr>messages := messages st @ [AssistantMessage ch]\<rparr>"
  have inv1: "loop_inv py st1" using inv by (simp add: st1_def loop_inv_def)
  show ?thesis
  proof (cases "\<exists>tc tcs. cm_tool_calls ch = Some (tc # tcs)")
    case True
    then obtain tc tcs where tcs: "cm_tool_calls ch = Some (tc # tcs)" by auto
    obtain fl st2 where l: "tool_loop py c sess (tc # tcs) st1 = (fl, st2)"
      by (cases "tool_loop py c sess (tc # tcs) st1")
    from tool_loop_post [OF inv1 l] have post: "loop_post py fl st2" .
    from hr Cons tcs l have st': "st' = st2"
      by (cases fl) (auto simp: handle_response_def Let_def st1_def)
    show ?thesis
    proof (cases fl)
      case Next
      with post st' show ?thesis by (simp add: loop_inv_def)
    next
      case (Return s)
      with hr Cons tcs l have "res = Inr s"
        by (auto simp: handle_response_def Let_def st1_def)
      with post st' Return show ?thesis by simp
    next
      case (Raise e)
      with post st' show ?thesis by simp
    qed
  next
    case False
    with hr Cons have "trace st' = trace st"
      by (auto simp: handle_response_def Let_def split: option.splits list.splits)
    with inv show ?thesis by (simp add: loop_inv_def)
  qed
qed

lemma process_query_post:
  assumes run: "process_query py c query = (res, st)"
  shows "no_failed_final (trace st) \<or> (\<exists>s. res = Inr s \<and> returned_after_failure py s st)"
proof (cases "session c")
  case None
  with run show ?thesis
    by (auto simp: process_query_def initial_state_def Let_def no_failed_final_def)
next
  case (Some sess)
  show ?thesis
  proof (cases "list_tools sess []")
    case (Inl e)
    with run Some show ?thesis
      by (auto simp: process_query_def initial_state_def Let_def no_failed_final_def)
  next
    case (Inr tools)
    define st1 where "st1 = (initial_state query)\<lparr>trace := [ListTools (Inr tools)]\<rparr>"
    define rq0 where "rq0 = initial_request c st1 tools"
    define r2 where "r2 = llm_create c (trace st1) rq0"
    define st2 where "st2 = st1\<lparr>trace := trace st1 @ [Completion rq0 r2]\<rparr>"
    have tools0: "req_tools rq0 \<noteq> None" by (simp add: rq0_def initial_request_def)
    then have inv2: "loop_inv py st2"
      by (simp add: loop_inv_def no_failed_final_def st2_def st1_def initial_state_def)
    show ?thesis
    proof (cases r2)
      case (Inl e)
      with run Some Inr have "st = st2"
        by (auto simp: process_query_def initial_state_def Let_def st1_def rq0_def r2_def st2_def)
      with inv2 show ?thesis by (simp add: loop_inv_def)
    next
      case r2: (Inr response0)
      with run Some Inr have hr: "handle_response py c sess response0 st2 = (res, st)"
        by (auto simp: process_query_def initial_state_def Let_def st1_def rq0_def r2_def st2_def)
      from handle_response_post [OF inv2 hr] show ?thesis .
    qed
  qed
qed

lemma final_call_effect:
  assumes "final_call c st = (fl, st')"
  shows "messages st' = messages st"
    and "\<exists>f. final_text st' = final_text st @ [PStr f]"
    and "str_items (final_text st) \<noteq> None \<Longrightarrow> fl \<noteq> Raise e"
  using assms
  by (auto simp: final_call_def Let_def join_newline_def str_items_snoc
      split: sum.splits option.splits)

section \<open>Concrete runs\<close>

lemmas run_defs =
  process_query_def handle_response_def initial_state_def initial_request_def
  tool_call_step_def parse_arguments_def execute_tool_def normalize_result_def
  template_block_def expand_template_def final_call_def final_request_def
  final_fragment_def join_newline_def announcement_def hasattr_def available_tool_def
  scripted_client_def scripted_session_def demo_py_def demo_loads_def demo_str_def
  demo_tool_def text_reply_def tool_reply_def call_1_def call_2_def bad_call_def
  template_call_def template_json_def template_args_value_def tool_result_def
  prompt_result_def broken_prompt_result_def prompt_message_def tool_error_result_def Let_def

section \<open>C7: no tool calls\<close>

text \<open>
  C7. When the completion requested with tools returns a message that carries no tool
  calls (the attribute is missing, None or an empty list) and has a text, the string
  \<^verbatim>\<open>process_query\<close> returns is exactly that text.
\<close>

theorem no_tool_calls_direct_text:
  assumes run: "process_query py c query = (res, st)"
      and ev: "Completion rq (Inr response) \<in> set (trace st)"
      and init: "req_tools rq \<noteq> None"
      and ch: "choices response = ch # rest"
      and zero: "cm_tool_calls ch = None \<or> cm_tool_calls ch = Some []"
      and direct: "cm_content ch = Some text"
  shows "res = Inr text"
proof (cases "session c")
  case None
  with run ev show ?thesis by (auto simp: process_query_def initial_state_def Let_def)
next
  case (Some sess)
  show ?thesis
  proof (cases "list_tools sess []")
    case (Inl e)
    with run ev Some show ?thesis by (auto simp: process_query_def initial_state_def Let_def)
  next
    case (Inr tools)
    define st1 where "st1 = (initial_state query)\<lparr>trace := [ListTools (Inr tools)]\<rparr>"
    define rq0 where "rq0 = initial_request c st1 tools"
    define r2 where "r2 = llm_create c (trace st1) rq0"
    define st2 where "st2 = st1\<lparr>trace := trace st1 @ [Completion rq0 r2]\<rparr>"
    have tools0: "req_tools rq0 \<noteq> None" by (simp add: rq0_def initial_request_def)
    show ?thesis
    proof (cases r2)
      case (Inl e)
      with run Some Inr have "st = st2"
        by (auto simp: process_query_def initial_state_def Let_def st1_def rq0_def r2_def st2_def)
      with ev Inl show ?thesis by (auto simp: st2_def st1_def)
    next
      case r2: (Inr response0)
      with run Some Inr have hr: "handle_response py c sess response0 st2 = (res, st)"
        by (auto simp: process_query_def initial_state_def Let_def st1_def rq0_def r2_def st2_def)
      from handle_response_trace [OF hr] obtain es
        where es: "trace st = trace st2 @ es" "list_all loop_event es" by auto
      from init have "\<not> loop_event (Completion rq (Inr response))" by simp
      with es(2) have "Completion rq (Inr response) \<notin> set es"
        by (auto simp: list_all_iff)
      with ev es(1) have "Completion rq (Inr response) \<in> set (trace st2)" by auto
      with r2 have "response0 = response" by (auto simp: st2_def st1_def)
      with hr ch zero direct show ?thesis
        by (auto simp: handle_response_def Let_def join_newline_def st2_def st1_def
            initial_state_def)
    qed
  qed
qed

theorem no_tool_calls_direct_text_witness:
  "fst (process_query demo_py
          (scripted_client (Some (scripted_session (Inr (tool_result ''Jane'')) (Inr prompt_result)))
             (text_reply ''No workers found.'') (\<lambda>k. Inr (text_reply ''unused'')))
          ''list workers'') = Inr ''No workers found.''"
proof -
  let ?c = "scripted_client (Some (scripted_session (Inr (tool_result ''Jane'')) (Inr prompt_result)))
             (text_reply ''No workers found.'') (\<lambda>k. Inr (text_reply ''unused''))"
  let ?run = "process_query demo_py ?c ''list workers''"
  let ?rq = "initial_request ?c ((initial_state ''list workers'')\<lparr>trace := [ListTools (Inr [demo_tool])]\<rparr>)
               [demo_tool]"
  have run: "?run = (fst ?run, snd ?run)" by simp
  have ev: "Completion ?rq (Inr (text_reply ''No workers found.'')) \<in> set (trace (snd ?run))"
    by (simp add: run_defs)
  have init: "req_tools ?rq \<noteq> None" by (simp add: initial_request_def)
  have ch: "choices (text_reply ''No workers found.'') =
              \<lparr>cm_content = Some ''No workers found.'', cm_tool_calls = None\<rparr> # []"
    by (simp add: text_reply_def)
  show ?thesis
    using no_tool_calls_direct_text [OF run ev init ch] by simp
qed

section \<open>C9: cleanup\<close>

text \<open>
  C9. When closing the exit stack raises ProcessLookupError, \<^verbatim>\<open>cleanup\<close> returns
  normally, raises nothing and prints nothing.
\<close>

theorem cleanup_process_lookup_error:
  assumes "aclose c t = Inl e" and "exn_kind e = ProcessLookupError"
  shows "cleanup c t = (Inr (), [])"
  using assms by (simp add: cleanup_def)

theorem cleanup_process_lookup_error_witness:
  "cleanup (init_client (\<lambda>t rq. Inr (text_reply ''hello'')) ''gpt-3.5-turbo''
              (\<lambda>t. Inl (PyExn ProcessLookupError ''No such process''))) [] = (Inr (), [])"
  using cleanup_process_lookup_error
    [of "init_client (\<lambda>t rq. Inr (text_reply ''hello'')) ''gpt-3.5-turbo''
           (\<lambda>t. Inl (PyExn ProcessLookupError ''No such process''))" "[]"
        "PyExn ProcessLookupError ''No such process''"]
  by (simp add: init_client_def)

section \<open>C10: connect\_to\_server\<close>

text \<open>
  C10. For a path that ends in neither \<^verbatim>\<open>.py\<close> nor \<^verbatim>\<open>.js\<close>, \<^verbatim>\<open>connect_to_server\<close>
  raises ValueError with no event (no transport opened, no session created) and the
  client unchanged; the session of a client fresh from \<^verbatim>\<open>__init__\<close> is None.
\<close>

theorem connect_rejects_other_suffix:
  assumes "\<not> endswith server_script_path ''.py''" and "\<not> endswith server_script_path ''.js''"
  shows "connect_to_server lib c server_script_path =
           (Inl (PyExn ValueError ''Server script must be a .py or .js file''), c, []) \<and>
         session (init_client create name close) = None \<and>
         session (fst (snd (connect_to_server lib (init_client create name close)
                              server_script_path))) = None"
  using assms by (simp add: connect_to_server_def init_client_def)

theorem connect_rejects_other_suffix_witness:
  "connect_to_server
     \<lparr>stdio_client = (\<lambda>t cmd args. Inr 0),
      ClientSession = (\<lambda>t tr. Inr (scripted_session (Inr PNone) (Inr PNone)))\<rparr>
     (init_client (\<lambda>t rq. Inr (text_reply ''hello'')) ''gpt-3.5-turbo'' (\<lambda>t. Inr ()))
     ''server.rb'' =
   (Inl (PyExn ValueError ''Server script must be a .py or .js file''),
    init_client (\<lambda>t rq. Inr (text_reply ''hello'')) ''gpt-3.5-turbo'' (\<lambda>t. Inr ()), [])"
proof -
  have a: "\<not> endswith ''server.rb'' ''.py''" by (simp add: endswith_def)
  have b: "\<not> endswith ''server.rb'' ''.js''" by (simp add: endswith_def)
  show ?thesis
    using connect_rejects_other_suffix [OF a b] by simp
qed

section \<open>C5: a failed final completion\<close>

text \<open>
  What holds of any run in which a completion requested without tools fails (the call
  raises \<open>e\<close>, or reading the text of its answer does): \<^verbatim>\<open>process_query\<close> returns the
  newline join of the fragments; the last fragment is the error text of \<open>e\<close>; every
  tool call made had returned a result, and the line that announces it and \<^verbatim>\<open>str\<close>
  of its whole response are among the fragments; and at least one tool call was made.
\<close>

lemma final_failure_fragments:
  assumes run: "process_query py c query = (res, st)"
      and ev: "Completion rq out \<in> set (trace st)"
      and final: "req_tools rq = None"
      and failed: "final_fragment out = Inl e"
  shows "(\<exists>s. res = Inr s \<and> join_newline (final_text st) = Inr s) \<and>
         last (final_text st) = PStr (''Error in final LLM call: '' @ exn_str e) \<and>
         list_all (reported py (final_text st)) (trace st) \<and>
         list_ex is_call_tool (trace st)"
proof -
  from final failed have ff: "failed_final (Completion rq out)" by simp
  with ev have "\<not> no_failed_final (trace st)"
    unfolding no_failed_final_def list_all_iff by blast
  with process_query_post [OF run] obtain s where s: "res = Inr s"
    and post: "returned_after_failure py s st" by blast
  from post obtain evs rq' out' e' where tr: "trace st = evs @ [Completion rq' out']"
    and nf: "no_failed_final evs" and f': "final_fragment out' = Inl e'"
    and l: "last (final_text st) = PStr (''Error in final LLM call: '' @ exn_str e')"
    by (auto simp: returned_after_failure_def)
  from nf ff have "Completion rq out \<notin> set evs"
    unfolding no_failed_final_def list_all_iff by blast
  with ev tr have "out = out'" by auto
  with failed f' have "e' = e" by simp
  with s post l show ?thesis by (auto simp: returned_after_failure_def)
qed

text \<open>
  C5, at a query whose first completion asks for one tool call, the tool returning a
  result whose content is the one text item \<^verbatim>\<open>Jane\<close>, and the completion without tools
  raising: \<^verbatim>\<open>process_query\<close> returns the join of three fragments, the line that
  announces the call, \<^verbatim>\<open>str\<close> of the whole response object, and the error text. The
  normalised result of the call, the text \<^verbatim>\<open>Jane\<close> of its content item, is not among
  them.
\<close>

theorem final_failure_answer_lacks_item_text:
  "final_text (snd (process_query demo_py
     (scripted_client (Some (scripted_session (Inr (tool_result ''Jane'')) (Inr prompt_result)))
        (tool_reply [call_1])
        (\<lambda>k. Inl (PyExn (OtherException ''RateLimitError'') ''rate limit'')))
     ''find Jane'')) =
     [PStr ''Calling tool get_workers_tool with args {}'',
      PStr (demo_str (tool_result ''Jane'')),
      PStr ''Error in final LLM call: rate limit''] \<and>
   fst (process_query demo_py
     (scripted_client (Some (scripted_session (Inr (tool_result ''Jane'')) (Inr prompt_result)))
        (tool_reply [call_1])
        (\<lambda>k. Inl (PyExn (OtherException ''RateLimitError'') ''rate limit'')))
     ''find Jane'') =
     Inr (''Calling tool get_workers_tool with args {}'' @ [CHR 0x0A] @
          demo_str (tool_result ''Jane'') @ [CHR 0x0A] @
          ''Error in final LLM call: rate limit'') \<and>
   demo_str (tool_result ''Jane'') \<noteq> ''Jane'' \<and>
   PStr ''Jane'' \<notin> set (final_text (snd (process_query demo_py
     (scripted_client (Some (scripted_session (Inr (tool_result ''Jane'')) (Inr prompt_result)))
        (tool_reply [call_1])
        (\<lambda>k. Inl (PyExn (OtherException ''RateLimitError'') ''rate limit'')))
     ''find Jane'')))"
  by (simp add: run_defs)

section \<open>C4: a tool call that fails\<close>

text \<open>An exception raised by \<^verbatim>\<open>call_tool\<close> ends the pass: nothing is appended to the
  conversation.\<close>

lemma call_tool_exception_propagates:
  assumes "tool_args (parse_arguments py tc st) = Some args"
      and "call_tool sess (trace st) (tc_name tc) args = Inl e"
  shows "fst (tool_call_step py c sess tc st) = Raise e"
    and "messages (snd (tool_call_step py c sess tc st)) = messages st"
  using assms by (simp_all add: tool_call_step_def execute_tool_def Let_def)

text \<open>
  C4, as the code has it. When \<^verbatim>\<open>call_tool\<close> returns a result object (one with an
  attribute \<^verbatim>\<open>content\<close>; a result in which the server reports that the tool failed
  is one), the pass does not raise, provided the fragments so far are strings; a result
  text for the call follows the line that announces it among the fragments, and a tool
  message with the id of the call and that same text is appended to the conversation.
\<close>

theorem returned_tool_result_is_surfaced:
  assumes args: "tool_args (parse_arguments py tc st) = Some args"
      and call: "call_tool sess (trace st) (tc_name tc) args = Inr r"
      and obj: "getattr r ''content'' = Inr cnt"
      and strs: "str_items (final_text st) \<noteq> None"
      and step: "tool_call_step py c sess tc st = (fl, st')"
  shows "(\<forall>e. fl \<noteq> Raise e) \<and>
         (\<exists>text frs.
            messages st' = messages st @ [ToolMessage (tc_id tc) (PStr text)] \<and>
            final_text st' =
              final_text st @
              [PStr (''Calling tool '' @ tc_name tc @ '' with args '' @ py_str py args),
               PStr text] @ map PStr frs)"
proof -
  define ann where "ann = ''Calling tool '' @ tc_name tc @ '' with args '' @ py_str py args"
  define st1 where "st1 = (parse_arguments py tc st)
    \<lparr>trace := trace st @ [CallTool (tc_name tc) args (Inr r)],
     final_text := final_text st @ [PStr ann, PStr (py_str py r)],
     messages := messages st @ [ToolMessage (tc_id tc) (PStr (py_str py r))]\<rparr>"
  from obj have norm: "normalize_result py r = Inr (PStr (py_str py r))"
    by (cases r) (auto simp: normalize_result_def split: option.splits)
  have ex: "execute_tool py sess tc (parse_arguments py tc st) = (Inr (), st1)"
    using args call norm
    by (simp add: execute_tool_def Let_def st1_def ann_def announcement_def)
  with step have fc: "final_call c (template_block py sess st1) = (fl, st')"
    by (simp add: tool_call_step_def)
  from expand_template_effect [of py sess st1] obtain ls where
    m2: "messages (template_block py sess st1) = messages st1"
    and f2: "final_text (template_block py sess st1) = final_text st1 @ map PStr ls"
    unfolding template_block_eq by blast
  from final_call_effect(1,2) [OF fc] obtain f where
    m3: "messages st' = messages (template_block py sess st1)"
    and f3: "final_text st' = final_text (template_block py sess st1) @ [PStr f]"
    by blast
  have "str_items (final_text st1) \<noteq> None"
    using strs str_items_append_strs [of "final_text st" "[ann, py_str py r]"]
    by (auto simp: st1_def split: option.splits)
  then have "str_items (final_text (template_block py sess st1)) \<noteq> None"
    by (auto simp: f2 str_items_append_strs split: option.splits)
  then have no_raise: "\<forall>e. fl \<noteq> Raise e"
    using final_call_effect(3) [OF fc] by blast
  have "messages st1 = messages st @ [ToolMessage (tc_id tc) (PStr (py_str py r))]"
    and "final_text st1 = final_text st @ [PStr ann, PStr (py_str py r)]"
    by (simp_all add: st1_def)
  then have "messages st' = messages st @ [ToolMessage (tc_id tc) (PStr (py_str py r))]"
    and "final_text st' =
      final_text st @ [PStr ann, PStr (py_str py r)] @ map PStr (ls @ [f])"
    using m3 m2 f3 f2 by simp_all
  then have "\<exists>text frs.
      messages st' = messages st @ [ToolMessage (tc_id tc) (PStr text)] \<and>
      final_text st' = final_text st @ [PStr ann, PStr text] @ map PStr frs"
    by blast
  with no_raise show ?thesis unfolding ann_def by blast
qed

theorem returned_tool_result_is_surfaced_witness:
  "fst (tool_call_step demo_py
          (scripted_client
             (Some (scripted_session (Inr (tool_error_result ''Error executing tool''))
                      (Inr prompt_result)))
             (tool_reply [call_1]) (\<lambda>k. Inr (text_reply ''The tool failed.'')))
          (scripted_session (Inr (tool_error_result ''Error executing tool'')) (Inr prompt_result))
          call_1 (initial_state ''find Jane'')) = Next \<and>
   (\<exists>text frs.
      messages (snd (tool_call_step demo_py
          (scripted_client
             (Some (scripted_session (Inr (tool_error_result ''Error executing tool''))
                      (Inr prompt_result)))
             (tool_reply [call_1]) (\<lambda>k. Inr (text_reply ''The tool failed.'')))
          (scripted_session (Inr (tool_error_result ''Error executing tool'')) (Inr prompt_result))
          call_1 (initial_state ''find Jane''))) =
        messages (initial_state ''find Jane'') @ [ToolMessage ''call_1'' (PStr text)] \<and>
      final_text (snd (tool_call_step demo_py
          (scripted_client
             (Some (scripted_session (Inr (tool_error_result ''Error executing tool''))
                      (Inr prompt_result)))
             (tool_reply [call_1]) (\<lambda>k. Inr (text_reply ''The tool failed.'')))
          (scripted_session (Inr (tool_error_result ''Error executing tool'')) (Inr prompt_result))
          call_1 (initial_state ''find Jane''))) =
        final_text (initial_state ''find Jane'') @
        [PStr ''Calling tool get_workers_tool with args {}'', PStr text] @ map PStr frs)"
proof -
  let ?r = "tool_error_result ''Error executing tool''"
  let ?sess = "scripted_session (Inr ?r) (Inr prompt_result)"
  let ?c = "scripted_client (Some ?sess) (tool_reply [call_1])
              (\<lambda>k. Inr (text_reply ''The tool failed.''))"
  let ?st = "initial_state ''find Jane''"
  let ?step = "tool_call_step demo_py ?c ?sess call_1 ?st"
  have args: "tool_args (parse_arguments demo_py call_1 ?st) = Some (PDict [])"
    by (simp add: run_defs)
  have call: "call_tool ?sess (trace ?st) (tc_name call_1) (PDict []) = Inr ?r"
    by (simp add: scripted_session_def)
  have obj: "getattr ?r ''content'' =
      Inr (PList [PObj ''TextContent'' [(''type'', PStr ''text''),
                                          (''text'', PStr ''Error executing tool'')]])"
    by (simp add: tool_error_result_def)
  have strs: "str_items (final_text ?st) \<noteq> None" by (simp add: initial_state_def)
  have step: "?step = (fst ?step, snd ?step)" by simp
  have nxt: "fst ?step = Next" by (simp add: run_defs)
  have ann: "''Calling tool '' @ tc_name call_1 @ '' with args '' @ py_str demo_py (PDict []) =
      ''Calling tool get_workers_tool with args {}''"
    by (simp add: demo_py_def call_1_def demo_str_def)
  show ?thesis
    using returned_tool_result_is_surfaced [OF args call obj strs step] nxt
    unfolding ann by (simp add: call_1_def)
qed

text \<open>
  C4, as stated, at a query whose first completion asks for one tool call and whose
  \<^verbatim>\<open>call_tool\<close> raises: the exception leaves \<^verbatim>\<open>process_query\<close>, and the conversation
  holds no tool message.
\<close>

theorem call_tool_exception_counterexample:
  "fst (process_query demo_py
     (scripted_client
        (Some (scripted_session (Inl (PyExn (OtherException ''McpError'') ''Connection closed''))
                 (Inr prompt_result)))
        (tool_reply [call_1]) (\<lambda>k. Inr (text_reply ''done'')))
     ''find Jane'') = Inl (PyExn (OtherException ''McpError'') ''Connection closed'') \<and>
   tool_message_ids (messages (snd (process_query demo_py
     (scripted_client
        (Some (scripted_session (Inl (PyExn (OtherException ''McpError'') ''Connection closed''))
                 (Inr prompt_result)))
        (tool_reply [call_1]) (\<lambda>k. Inr (text_reply ''done'')))
     ''find Jane''))) = [] \<and>
   map event_kind (trace (snd (process_query demo_py
     (scripted_client
        (Some (scripted_session (Inl (PyExn (OtherException ''McpError'') ''Connection closed''))
                 (Inr prompt_result)))
        (tool_reply [call_1]) (\<lambda>k. Inr (text_reply ''done'')))
     ''find Jane''))) = [''list_tools'', ''completion with tools'', ''call_tool'']"
  by (simp add: run_defs)

section \<open>C8: the template request\<close>

text \<open>
  C8. In a pass where the tool was executed, whatever the body of the \<^verbatim>\<open>try\<close> around
  the template request does (\<open>r\<close> may be a raised exception), it leaves the
  conversation (\<open>messages\<close>) as it was; the fragments it appends are the lines of
  assistant messages among the first \<open>k\<close> messages of the template that
  \<^verbatim>\<open>get_prompt\<close> rendered in this pass; and the pass goes on with the completion call
  from the state the body left.
\<close>

theorem template_expansion_frame:
  assumes ex: "execute_tool py sess tc (parse_arguments py tc st) = (Inr u, st1)"
      and tp: "expand_template py sess st1 = (r, st2)"
  shows "messages st2 = messages st1 \<and>
         (\<exists>evs k. trace st2 = trace st1 @ evs \<and>
            final_text st2 =
              final_text st1 @
              map PStr (List.map_filter (content_line py)
                          (filter is_assistant (take k (concat (map rendered evs)))))) \<and>
         tool_call_step py c sess tc st = final_call c st2"
proof -
  from tp have st2: "st2 = snd (expand_template py sess st1)" by simp
  have "tool_call_step py c sess tc st = final_call c (template_block py sess st1)"
    using ex by (simp add: tool_call_step_def)
  then have "tool_call_step py c sess tc st = final_call c st2"
    by (simp add: template_block_eq st2)
  with expand_template_effect [of py sess st1] show ?thesis
    unfolding st2 by blast
qed

theorem template_expansion_frame_witness:
  "fst (expand_template demo_py
          (scripted_session (Inr (tool_result ''Jane'')) (Inr broken_prompt_result))
          (snd (execute_tool demo_py
                  (scripted_session (Inr (tool_result ''Jane'')) (Inr broken_prompt_result))
                  template_call
                  (parse_arguments demo_py template_call (initial_state ''summarise worker 42''))))) =
     Inl (PyExn AttributeError ''object has no attribute role'') \<and>
   messages (snd (expand_template demo_py
          (scripted_session (Inr (tool_result ''Jane'')) (Inr broken_prompt_result))
          (snd (execute_tool demo_py
                  (scripted_session (Inr (tool_result ''Jane'')) (Inr broken_prompt_result))
                  template_call
                  (parse_arguments demo_py template_call (initial_state ''summarise worker 42'')))))) =
     messages (snd (execute_tool demo_py
                  (scripted_session (Inr (tool_result ''Jane'')) (Inr broken_prompt_result))
                  template_call
                  (parse_arguments demo_py template_call (initial_state ''summarise worker 42'')))) \<and>
   final_text (snd (expand_template demo_py
          (scripted_session (Inr (tool_result ''Jane'')) (Inr broken_prompt_result))
          (snd (execute_tool demo_py
                  (scripted_session (Inr (tool_result ''Jane'')) (Inr broken_prompt_result))
                  template_call
                  (parse_arguments demo_py template_call (initial_state ''summarise worker 42'')))))) =
     final_text (snd (execute_tool demo_py
                  (scripted_session (Inr (tool_result ''Jane'')) (Inr broken_prompt_result))
                  template_call
                  (parse_arguments demo_py template_call (initial_state ''summarise worker 42'')))) @
     [PStr (''LLM response: '' @
            demo_str (PDict [(''role'', PStr ''assistant''), (''content'', PStr ''Summary'')]))] \<and>
   tool_call_step demo_py
     (scripted_client
        (Some (scripted_session (Inr (tool_result ''Jane'')) (Inr broken_prompt_result)))
        (tool_reply [template_call]) (\<lambda>k. Inr (text_reply ''done'')))
     (scripted_session (Inr (tool_result ''Jane'')) (Inr broken_prompt_result))
     template_call (initial_state ''summarise worker 42'') =
   final_call
     (scripted_client
        (Some (scripted_session (Inr (tool_result ''Jane'')) (Inr broken_prompt_result)))
        (tool_reply [template_call]) (\<lambda>k. Inr (text_reply ''done'')))
     (snd (expand_template demo_py
          (scripted_session (Inr (tool_result ''Jane'')) (Inr broken_prompt_result))
          (snd (execute_tool demo_py
                  (scripted_session (Inr (tool_result ''Jane'')) (Inr broken_prompt_result))
                  template_call
                  (parse_arguments demo_py template_call (initial_state ''summarise worker 42''))))))"
proof -
  let ?sess = "scripted_session (Inr (tool_result ''Jane'')) (Inr broken_prompt_result)"
  let ?st = "initial_state ''summarise worker 42''"
  let ?ex = "execute_tool demo_py ?sess template_call (parse_arguments demo_py template_call ?st)"
  let ?tp = "expand_template demo_py ?sess (snd ?ex)"
  have ex: "?ex = (Inr (), snd ?ex)" by (simp add: run_defs)
  have tp: "?tp = (fst ?tp, snd ?tp)" by simp
  have raised: "fst ?tp = Inl (PyExn AttributeError ''object has no attribute role'')"
    by (simp add: run_defs)
  have lines: "final_text (snd ?tp) = final_text (snd ?ex) @
     [PStr (''LLM response: '' @
            demo_str (PDict [(''role'', PStr ''assistant''), (''content'', PStr ''Summary'')]))]"
    by (simp add: run_defs)
  show ?thesis
    using template_expansion_frame [OF ex tp] raised lines by simp
qed

section \<open>C1: how many completions without tools\<close>

text \<open>
  C1, at a query whose first completion asks for two tool calls, both well formed, with
  every call to the tool and to the model answered: the completion without tools stands
  inside the loop, so it is requested once after each tool call, and the first request
  goes out before the second tool is called.
\<close>

theorem final_call_once_per_tool_call:
  "map event_kind (trace (snd (process_query demo_py
     (scripted_client (Some (scripted_session (Inr (tool_result ''Jane'')) (Inr prompt_result)))
        (tool_reply [call_1, call_2]) (\<lambda>k. Inr (text_reply ''done'')))
     ''find two workers''))) =
   [''list_tools'', ''completion with tools'', ''call_tool'', ''completion without tools'',
    ''call_tool'', ''completion without tools'']"
  by (simp add: run_defs)

section \<open>C2: arguments that do not parse\<close>

lemma parse_failure_unbound:
  assumes "json_loads py (tc_arguments tc) = Inl e" and "tool_args st = None"
  shows "tool_call_step py c sess tc st =
    (Raise (PyExn UnboundLocalError
       ''cannot access local variable tool_args where it is not associated with a value''), st)"
  using assms by (simp add: tool_call_step_def parse_arguments_def execute_tool_def)

lemma parse_failure_stale:
  assumes "json_loads py (tc_arguments tc) = Inl e" and "tool_args st = Some args"
  shows "\<exists>evs. trace (snd (tool_call_step py c sess tc st)) =
    trace st @ CallTool (tc_name tc) args (call_tool sess (trace st) (tc_name tc) args) # evs"
proof -
  obtain r st1 where ex: "execute_tool py sess tc (parse_arguments py tc st) = (r, st1)"
    by (cases "execute_tool py sess tc (parse_arguments py tc st)")
  with assms have tr: "trace st1 =
      trace st @ [CallTool (tc_name tc) args (call_tool sess (trace st) (tc_name tc) args)]"
    by (auto simp: parse_arguments_def execute_tool_def Let_def split: sum.splits)
  show ?thesis
  proof (cases r)
    case (Inl e')
    with ex tr show ?thesis by (simp add: tool_call_step_def)
  next
    case (Inr u)
    obtain fl st' where fc: "final_call c (template_block py sess st1) = (fl, st')"
      by (cases "final_call c (template_block py sess st1)")
    from expand_template_trace [of py sess st1] obtain es2
      where "trace (template_block py sess st1) = trace st1 @ es2"
      by (auto simp: template_block_eq)
    moreover from final_call_trace [OF fc] obtain es3
      where "trace st' = trace (template_block py sess st1) @ es3" by auto
    ultimately show ?thesis using Inr ex tr fc by (simp add: tool_call_step_def)
  qed
qed

text \<open>
  C2, at two queries. When the first of two tool calls has arguments that do not parse,
  \<^verbatim>\<open>process_query\<close> raises UnboundLocalError and no tool is called, the second
  included. When the second of two has, the tool is called for it all the same, with
  the arguments of the first, and its tool message is appended.
\<close>

theorem malformed_arguments_not_skipped:
  "fst (process_query demo_py
     (scripted_client (Some (scripted_session (Inr (tool_result ''Jane'')) (Inr prompt_result)))
        (tool_reply [bad_call, call_1]) (\<lambda>k. Inr (text_reply ''done'')))
     ''find two workers'') =
     Inl (PyExn UnboundLocalError
       ''cannot access local variable tool_args where it is not associated with a value'') \<and>
   called_with (trace (snd (process_query demo_py
     (scripted_client (Some (scripted_session (Inr (tool_result ''Jane'')) (Inr prompt_result)))
        (tool_reply [bad_call, call_1]) (\<lambda>k. Inr (text_reply ''done'')))
     ''find two workers''))) = [] \<and>
   called_with (trace (snd (process_query demo_py
     (scripted_client (Some (scripted_session (Inr (tool_result ''Jane'')) (Inr prompt_result)))
        (tool_reply [call_1, bad_call]) (\<lambda>k. Inr (text_reply ''done'')))
     ''find two workers''))) = [PDict [], PDict []] \<and>
   tool_message_ids (messages (snd (process_query demo_py
     (scripted_client (Some (scripted_session (Inr (tool_result ''Jane'')) (Inr prompt_result)))
        (tool_reply [call_1, bad_call]) (\<lambda>k. Inr (text_reply ''done'')))
     ''find two workers''))) = [''call_1'', ''call_3'']"
  by (simp add: run_defs)

section \<open>C3: the normalised result\<close>

text \<open>A response that is itself a list or a string has no \<^verbatim>\<open>content\<close>: line 112 raises
  before the tests on its type are reached. (Whenever the normalisation returns, it
  returns \<^verbatim>\<open>str\<close> of the whole response: \<open>normalize_result_str\<close>.)\<close>

lemma normalize_result_list_or_str:
  "is_list r \<or> is_str r \<Longrightarrow>
   normalize_result py r = Inl (PyExn AttributeError ''object has no attribute content'')"
  by (cases r) (simp_all add: normalize_result_def)

text \<open>
  C3, at the response of a tool whose content is one text item \<^verbatim>\<open>Jane\<close>: the
  normalised result is \<^verbatim>\<open>str\<close> of the response object, not the text of its item; and
  a response that is itself a list or a string raises AttributeError, since
  \<^verbatim>\<open>content\<close> is read first.
\<close>

theorem normalize_result_whole_response:
  "normalize_result demo_py (tool_result ''Jane'') = Inr (PStr (demo_str (tool_result ''Jane''))) \<and>
   demo_str (tool_result ''Jane'') \<noteq> ''Jane'' \<and>
   normalize_result demo_py
     (PList [PObj ''TextContent'' [(''type'', PStr ''text''), (''text'', PStr ''Jane'')]]) =
     Inl (PyExn AttributeError ''object has no attribute content'') \<and>
   normalize_result demo_py (PStr ''Jane'') =
     Inl (PyExn AttributeError ''object has no attribute content'')"
  by (simp add: run_defs)

section \<open>C6: the tool messages\<close>

lemma tool_call_step_next_messages:
  assumes "tool_call_step py c sess tc st = (Next, st')"
  shows "tool_message_ids (messages st') = tool_message_ids (messages st) @ [tc_id tc]"
proof -
  obtain r st1 where ex: "execute_tool py sess tc (parse_arguments py tc st) = (r, st1)"
    by (cases "execute_tool py sess tc (parse_arguments py tc st)")
  with assms obtain u where r: "r = Inr u"
    by (cases r) (auto simp: tool_call_step_def)
  with ex assms have fc: "final_call c (template_block py sess st1) = (Next, st')"
    by (simp add: tool_call_step_def)
  from ex r obtain t where "messages st1 = messages st @ [ToolMessage (tc_id tc) t]"
    by (auto simp: execute_tool_def Let_def split: option.splits sum.splits)
  moreover have "messages (template_block py sess st1) = messages st1"
    using expand_template_effect [of py sess st1] by (auto simp: template_block_eq)
  moreover have "messages st' = messages (template_block py sess st1)"
    using final_call_effect(1) [OF fc] .
  moreover have "tool_message_ids (ms @ [ToolMessage i t]) = tool_message_ids ms @ [i]" for ms i
    by (induction ms rule: tool_message_ids.induct) simp_all
  ultimately show ?thesis by simp
qed

text \<open>When the loop runs to its end, the tool messages it appended carry the ids of the
  tool calls, in their order.\<close>

lemma tool_loop_next_messages:
  "tool_loop py c sess tcs st = (Next, st') \<Longrightarrow>
   tool_message_ids (messages st') = tool_message_ids (messages st) @ map tc_id tcs"
proof (induction tcs arbitrary: st)
  case Nil
  then show ?case by simp
next
  case (Cons tc tcs)
  obtain fl1 st1 where s: "tool_call_step py c sess tc st = (fl1, st1)"
    by (cases "tool_call_step py c sess tc st")
  with Cons.prems have fl1: "fl1 = Next" by (cases fl1) auto
  with Cons.prems s have "tool_loop py c sess tcs st1 = (Next, st')" by simp
  from Cons.IH [OF this] tool_call_step_next_messages [OF s [unfolded fl1]]
  show ?case by simp
qed

text \<open>
  C6, at a query whose first completion asks for two tool calls, both well formed, the
  tool answering every call: when the completion requested after the first tool call
  raises, \<^verbatim>\<open>process_query\<close> returns there, the second tool is never called, and the
  conversation holds one tool message for two requested ids.
\<close>

theorem early_return_drops_tool_messages:
  "tool_message_ids (messages (snd (process_query demo_py
     (scripted_client (Some (scripted_session (Inr (tool_result ''Jane'')) (Inr prompt_result)))
        (tool_reply [call_1, call_2])
        (\<lambda>k. Inl (PyExn (OtherException ''BadRequestError'') ''missing tool messages'')))
     ''find two workers''))) = [''call_1''] \<and>
   map tc_id [call_1, call_2] = [''call_1'', ''call_2''] \<and>
   map event_kind (trace (snd (process_query demo_py
     (scripted_client (Some (scripted_session (Inr (tool_result ''Jane'')) (Inr prompt_result)))
        (tool_reply [call_1, call_2])
        (\<lambda>k. Inl (PyExn (OtherException ''BadRequestError'') ''missing tool messages'')))
     ''find two workers''))) =
   [''list_tools'', ''completion with tools'', ''call_tool'', ''completion without tools'']"
  by (simp add: run_defs)

end
